theory Spec2Isabelle
  imports Main "HOL-Library.Sublist"
begin

section \<open>Python strings\<close>

text \<open>
  A Python \<open>str\<close> is a sequence of Unicode code points, and \<open>len\<close> counts code points,
  so a string is a list of naturals here. \<open>lit\<close> turns an ASCII literal into its code
  points; the three non-ASCII characters of \<open>main.py\<close> are written as numbers.
\<close>

type_synonym str = "nat list"

definition lit :: "string \<Rightarrow> str" where
  "lit cs = map of_char cs"

definition squote :: str where
  "squote = [39]"

definition dquote :: str where
  "dquote = [34]"

definition warning_sign :: str where
  \<comment> \<open>U+26A0 WARNING SIGN followed by U+FE0F VARIATION SELECTOR-16\<close>
  "warning_sign = [9888, 65039]"

definition police_light :: str where
  \<comment> \<open>U+1F6A8 POLICE CARS REVOLVING LIGHT\<close>
  "police_light = [128680]"

text \<open>
  \<open>word in text\<close> on two strings is contiguous-substring search: it scans the start
  positions of \<open>text\<close> from the left and compares \<open>word\<close> with what begins there.
\<close>

fun str_in :: "str \<Rightarrow> str \<Rightarrow> bool" where
  "str_in w [] = (w = [])"
| "str_in w (c # cs) = (prefix w (c # cs) \<or> str_in w cs)"

text \<open>
  \<open>str.strip()\<close> without argument removes leading and trailing code points for which
  CPython's \<open>Py_UNICODE_ISSPACE\<close> holds.
\<close>

definition isspace :: "nat \<Rightarrow> bool" where
  "isspace c \<longleftrightarrow>
     (9 \<le> c \<and> c \<le> 13) \<or> (28 \<le> c \<and> c \<le> 32) \<or> c = 133 \<or> c = 160 \<or> c = 5760 \<or>
     (8192 \<le> c \<and> c \<le> 8202) \<or> c = 8232 \<or> c = 8233 \<or> c = 8239 \<or> c = 8287 \<or> c = 12288"

definition strip :: "str \<Rightarrow> str" where
  "strip t = rev (dropWhile isspace (rev (dropWhile isspace t)))"

text \<open>
  \<open>str.lower()\<close> is a built-in whose Unicode case tables are not part of the repository.
  Every function that calls it takes it as the parameter \<open>lower\<close>. \<open>ascii_lower\<close> is what
  the built-in computes on strings of code points below 128; it is the instance at which
  the functions are evaluated.
\<close>

definition ascii_lower :: "str \<Rightarrow> str" where
  "ascii_lower t = map (\<lambda>c. if 65 \<le> c \<and> c \<le> 90 then c + 32 else c) t"

section \<open>The request and the keyword lists\<close>

record SymptomRequest =
  symptom_name :: str
  description :: str
  severity :: str
  duration :: str

definition ALLOWED_KEYWORDS :: "str list" where
  "ALLOWED_KEYWORDS = map lit
    [''child'', ''baby'', ''infant'', ''toddler'', ''kid'', ''newborn'',
     ''fever'', ''cough'', ''vomiting'', ''diarrhea'', ''constipation'',
     ''rash'', ''vaccination'', ''vaccine'', ''immunization'',
     ''weight'', ''height'', ''growth'', ''development'',
     ''milestone'', ''sleep'', ''nutrition'', ''feeding'', ''breastfeed'',
     ''teething'', ''diaper'', ''allergy'', ''cold'', ''flu'']"

definition EMERGENCY_KEYWORDS :: "str list" where
  "EMERGENCY_KEYWORDS = map lit
    [''seizure'', ''seizures'', ''unconscious'', ''unconsciousness'',
     ''not breathing'', ''choking'', ''asphyxia'',
     ''blue lips'', ''cyanosis'', ''severe breathing'',
     ''very high fever'', ''high fever over'', ''104'', ''40c'',
     ''severe bleeding'', ''unresponsive'', ''poisoning'', ''overdose'',
     ''severe allergic'', ''anaphylaxis'', ''head injury'', ''fall'',
     ''unable to wake'', ''extreme lethargy'', ''rigid neck'']"

definition SYSTEM_PROMPT :: str where
  "SYSTEM_PROMPT =
     lit ''You are a pediatric health assistant for parents caring for children aged 0-5 years.\<newline>'' @
     lit ''\<newline>'' @
     lit ''CRITICAL RULES:\<newline>'' @
     lit ''1. ONLY answer questions about child health (ages 0-5 years)\<newline>'' @
     lit ''2. NEVER diagnose, prescribe medications, or provide definitive medical advice\<newline>'' @
     lit ''3. Provide general educational information only\<newline>'' @
     lit ''4. Keep responses SHORT and TO THE POINT (2-3 sentences max, use bullet points if needed)\<newline>'' @
     lit ''5. ALWAYS include this disclaimer at the end of every response:\<newline>'' @
     lit ''   '' @ dquote @ warning_sign @
     lit '' Disclaimer: This information is for educational purposes only. Please consult a pediatrician for proper medical advice.'' @
     dquote @ lit ''\<newline>'' @
     lit ''\<newline>'' @
     lit ''RESPONSE GUIDELINES:\<newline>'' @
     lit ''- Be direct and concise - avoid long paragraphs\<newline>'' @
     lit ''- Use bullet points for multiple points\<newline>'' @
     lit ''- Give practical, actionable advice not medication\<newline>'' @
     lit ''- Suggest when to contact a doctor\<newline>'' @
     lit ''- Keep language simple and non-technical\<newline>'' @
     lit ''\<newline>'' @
     lit ''For unrelated questions, respond with:\<newline>'' @
     dquote @ lit ''I'' @ squote @
     lit ''m specifically designed to help with child health questions. This question appears unrelated to child health.''"

section \<open>The classification checks\<close>

definition is_child_health_query :: "(str \<Rightarrow> str) \<Rightarrow> str \<Rightarrow> bool" where
  "is_child_health_query lower text =
     (let text_lower = lower text
      in list_ex (\<lambda>word. str_in word text_lower) ALLOWED_KEYWORDS)"

definition is_emergency :: "(str \<Rightarrow> str) \<Rightarrow> str \<Rightarrow> bool" where
  "is_emergency lower text =
     (let text_lower = lower text
      in list_ex (\<lambda>word. str_in word text_lower) EMERGENCY_KEYWORDS)"

definition disclaimer :: str where
  "disclaimer =
     lit ''\<newline>\<newline>'' @ warning_sign @
     lit '' Disclaimer: This information is for educational purposes only and is NOT a medical diagnosis. Please consult a pediatrician for proper medical advice.''"

definition sanitize_response :: "str \<Rightarrow> str" where
  "sanitize_response response_text =
     (if \<not> str_in (lit ''Disclaimer'') response_text
      then response_text @ disclaimer
      else response_text)"

section \<open>The handler\<close>

text \<open>
  A raised \<open>HTTPException\<close> is the left summand of the result, a returned dictionary
  (sent with status 200) the right one; a dictionary is the list of its items in
  insertion order. The external model is the parameter \<open>generate_content\<close>: on a prompt
  it either raises an exception, given by its \<open>str(e)\<close>, or yields the reply's
  \<open>text\<close> (a \<open>None\<close> text is the empty string: both are falsy). The handler's
  \<open>print\<close> of the traceback is left out.
\<close>

datatype json = JStr str | JBool bool

datatype HTTPException = HTTPException (status_code: nat) (detail: str)

type_synonym response = "(string \<times> json) list"

definition refusal_text :: str where
  "refusal_text =
     lit ''I'' @ squote @
     lit ''m specifically designed to help with child health questions. This question appears unrelated to child health.''"

definition emergency_text :: str where
  "emergency_text =
     police_light @
     lit '' EMERGENCY ALERT: Based on your description, this may be a medical emergency. Call emergency services or visit the nearest hospital immediately.''"

definition combined_text :: "SymptomRequest \<Rightarrow> str" where
  "combined_text request =
     symptom_name request @ lit '' '' @ description request @ lit '' '' @
     severity request @ lit '' '' @ duration request"

definition structured_query :: "SymptomRequest \<Rightarrow> str" where
  "structured_query request =
     lit ''\<newline>        Symptom: '' @ symptom_name request @
     lit ''\<newline>        Description: '' @ description request @
     lit ''\<newline>        Severity: '' @ severity request @
     lit ''\<newline>        Duration: '' @ duration request @
     lit ''\<newline>        \<newline>        Please provide guidance for this child health concern.\<newline>        ''"

definition ask_symptom ::
  "(str \<Rightarrow> str) \<Rightarrow> (str \<Rightarrow> str + str) \<Rightarrow> SymptomRequest \<Rightarrow> HTTPException + response" where
  "ask_symptom lower generate_content request =
     (if symptom_name request = [] \<or> length (strip (symptom_name request)) < 2 then
        Inl (HTTPException 400 (lit ''Please provide a symptom name''))
      else if description request = [] \<or> length (strip (description request)) < 5 then
        Inl (HTTPException 400 (lit ''Please provide a detailed description''))
      else
        let combined_query = lower (combined_text request) in
        if \<not> is_child_health_query lower combined_query then
          Inr [(''response'', JStr refusal_text),
               (''emergency'', JBool False),
               (''symptom'', JStr (symptom_name request))]
        else if is_emergency lower combined_query then
          Inr [(''response'', JStr emergency_text),
               (''emergency'', JBool True),
               (''symptom'', JStr (symptom_name request))]
        else
          (case generate_content
                  (SYSTEM_PROMPT @ lit ''\<newline>\<newline>Parent'' @ squote @
                   lit ''s Symptom Report: '' @ structured_query request) of
             Inl e \<Rightarrow> Inl (HTTPException 500 (lit ''An error occurred: '' @ e))
           | Inr text \<Rightarrow>
               if text = [] then
                 Inl (HTTPException 500
                        (lit ''An error occurred: '' @ lit ''Empty response from API''))
               else
                 let sanitized_response = sanitize_response text in
                 Inr [(''response'', JStr sanitized_response),
                      (''emergency'', JBool False),
                      (''symptom'', JStr (symptom_name request)),
                      (''severity'', JStr (severity request)),
                      (''duration'', JStr (duration request))]))"

section \<open>Notions used in the properties\<close>

text \<open>
  \<open>mentions keywords t\<close>: some keyword of the list occurs in \<open>t\<close>.
  \<open>passes_validation\<close>: neither of the two guards at the head of the handler fires.
  \<open>model_input\<close>: the prompt the handler passes to the model.
\<close>

definition mentions :: "str list \<Rightarrow> str \<Rightarrow> bool" where
  "mentions keywords t = list_ex (\<lambda>word. str_in word t) keywords"

definition passes_validation :: "SymptomRequest \<Rightarrow> bool" where
  "passes_validation request \<longleftrightarrow>
     \<not> (symptom_name request = [] \<or> length (strip (symptom_name request)) < 2) \<and>
     \<not> (description request = [] \<or> length (strip (description request)) < 5)"

definition model_input :: "SymptomRequest \<Rightarrow> str" where
  "model_input request =
     SYSTEM_PROMPT @ lit ''\<newline>\<newline>Parent'' @ squote @ lit ''s Symptom Report: '' @
     structured_query request"

text \<open>
  Two facts about the built-in \<open>str.lower\<close> are used as hypotheses: lowering a lowered
  string changes nothing, and on code points below 128 it is \<open>ascii_lower\<close>.
\<close>

definition idempotent :: "(str \<Rightarrow> str) \<Rightarrow> bool" where
  "idempotent f \<longleftrightarrow> (\<forall>t. f (f t) = f t)"

definition ascii_agrees :: "(str \<Rightarrow> str) \<Rightarrow> bool" where
  "ascii_agrees lower \<longleftrightarrow> (\<forall>t. list_all (\<lambda>c. c < 128) t \<longrightarrow> lower t = ascii_lower t)"

text \<open>
  \<open>occurrences w t\<close> counts the positions of \<open>t\<close> at which \<open>w\<close> begins.
\<close>

definition occurrences :: "str \<Rightarrow> str \<Rightarrow> nat" where
  "occurrences w t = length (filter (\<lambda>i. prefix w (drop i t)) [0..<Suc (length t)])"

definition rejected_400 :: "HTTPException + response \<Rightarrow> bool" where
  "rejected_400 res = (case res of Inl e \<Rightarrow> status_code e = 400 | Inr r \<Rightarrow> False)"

definition field :: "string \<Rightarrow> HTTPException + response \<Rightarrow> json option" where
  "field k res = (case res of Inl e \<Rightarrow> None | Inr r \<Rightarrow> map_of r k)"

subsection \<open>Concrete models and requests\<close>

text \<open>A model that answers every prompt with \<open>t\<close>, and one that raises with message \<open>e\<close>.\<close>

definition reply_with :: "str \<Rightarrow> str \<Rightarrow> str + str" where
  "reply_with t prompt = Inr t"

definition raise_with :: "str \<Rightarrow> str \<Rightarrow> str + str" where
  "raise_with e prompt = Inl e"

definition request_of :: "string \<Rightarrow> string \<Rightarrow> string \<Rightarrow> string \<Rightarrow> SymptomRequest" where
  "request_of n d s u =
     \<lparr>symptom_name = lit n, description = lit d, severity = lit s, duration = lit u\<rparr>"

definition seizure_only :: SymptomRequest where
  "seizure_only = request_of ''Seizure'' ''shaking and unresponsive'' ''high'' ''5 min''"

definition fever_seizure :: SymptomRequest where
  "fever_seizure = request_of ''Fever'' ''my child had a seizure'' ''high'' ''1 hour''"

definition choking_only :: SymptomRequest where
  "choking_only = request_of ''Choking'' ''not breathing after lunch'' ''severe'' ''2 min''"

definition car_engine :: SymptomRequest where
  "car_engine = request_of ''Car engine'' ''makes a strange noise'' ''low'' ''2 days''"

definition mild_fever :: SymptomRequest where
  "mild_fever = request_of ''Fever'' ''My toddler has a mild temperature'' ''mild'' ''1 day''"

definition short_name :: SymptomRequest where
  "short_name = request_of ''a'' ''my child had a fall'' ''high'' ''1 hour''"

definition blank_name :: SymptomRequest where
  "blank_name = request_of ''   '' ''my toddler has a cough'' ''mild'' ''1 day''"

definition no_severity :: SymptomRequest where
  "no_severity = request_of ''Cough'' ''my toddler has a cough'' [] []"

lemmas fixture_defs =
  seizure_only_def fever_seizure_def choking_only_def car_engine_def mild_fever_def
  short_name_def blank_name_def no_severity_def

lemmas eval_defs =
  ask_symptom_def is_child_health_query_def is_emergency_def sanitize_response_def
  mentions_def passes_validation_def combined_text_def strip_def isspace_def
  ascii_lower_def lit_def request_of_def reply_with_def raise_with_def
  ALLOWED_KEYWORDS_def EMERGENCY_KEYWORDS_def

section \<open>Substring search and counting\<close>

lemma str_in_sublist: "str_in w t \<longleftrightarrow> sublist w t"
  by (induction t) (simp_all add: sublist_Cons_right)

lemma str_in_position: "str_in w t \<longleftrightarrow> (\<exists>i\<le>length t. prefix w (drop i t))"
proof
  assume "str_in w t"
  then obtain ps ss where t: "t = ps @ w @ ss"
    by (auto simp: str_in_sublist sublist_def)
  then have "prefix w (drop (length ps) t)" by simp
  moreover have "length ps \<le> length t" using t by simp
  ultimately show "\<exists>i\<le>length t. prefix w (drop i t)" by blast
next
  assume "\<exists>i\<le>length t. prefix w (drop i t)"
  then obtain i ss where "drop i t = w @ ss" by (auto simp: prefix_def)
  then have "t = take i t @ w @ ss" by (metis append_take_drop_id)
  then show "str_in w t" unfolding str_in_sublist sublist_def by blast
qed

lemma no_straddle:
  assumes "c \<notin> set w" "prefix w (drop i (t @ c # d))" "i < length t"
  shows "prefix w (drop i t)"
proof -
  from assms(3) have "drop i (t @ c # d) = drop i t @ c # d" by simp
  with assms(2) have "prefix w (drop i t @ c # d)" by simp
  then consider "prefix w (drop i t)" | us where "w = drop i t @ us" "prefix us (c # d)"
    by (auto simp: prefix_append)
  then show ?thesis
  proof cases
    case 1 then show ?thesis .
  next
    case 2
    with assms(1) have "us = []" by (cases us) auto
    with 2 show ?thesis by simp
  qed
qed

lemma filter_upt_none: "(\<And>i. i < n \<Longrightarrow> \<not> P i) \<Longrightarrow> filter P [0..<n] = []"
  by (simp add: filter_empty_conv)

lemma occurrences_tail:
  assumes "\<And>i. i < length t \<Longrightarrow> \<not> prefix w (drop i (t @ d))"
  shows "occurrences w (t @ d) = occurrences w d"
proof -
  let ?n = "length t" and ?m = "length d"
  let ?P = "\<lambda>i. prefix w (drop i (t @ d))"
  have "[0..<Suc (length (t @ d))] = [0..<?n + Suc ?m]"
    by simp
  also have "\<dots> = [0..<?n] @ [?n..<?n + Suc ?m]"
    by (rule upt_add_eq_append) simp
  also have "[?n..<?n + Suc ?m] = map (\<lambda>j. j + ?n) [0..<Suc ?m]"
    unfolding map_add_upt by (simp add: add.commute)
  finally have split: "[0..<Suc (length (t @ d))] = [0..<?n] @ map (\<lambda>j. j + ?n) [0..<Suc ?m]" .
  have "filter ?P [0..<?n] = []"
    using assms by (simp add: filter_empty_conv)
  moreover have "filter ?P (map (\<lambda>j. j + ?n) [0..<Suc ?m])
      = map (\<lambda>j. j + ?n) (filter (\<lambda>j. prefix w (drop j d)) [0..<Suc ?m])"
    by (simp add: filter_map comp_def del: upt_Suc)
  ultimately show ?thesis
    unfolding occurrences_def split by (simp del: upt_Suc)
qed

lemma occurrences_word:
  assumes "\<not> str_in (lit ''Disclaimer'') t"
  shows "occurrences (lit ''Disclaimer'') (t @ disclaimer) = 1"
proof -
  have d: "disclaimer = 10 # tl disclaimer" by (simp add: disclaimer_def lit_def)
  have notin: "10 \<notin> set (lit ''Disclaimer'')" by (simp add: lit_def)
  have "\<not> prefix (lit ''Disclaimer'') (drop i (t @ disclaimer))" if "i < length t" for i
  proof
    assume "prefix (lit ''Disclaimer'') (drop i (t @ disclaimer))"
    then have "prefix (lit ''Disclaimer'') (drop i t)"
      using no_straddle [OF notin _ that, of "tl disclaimer"] d by simp
    with that assms show False by (auto simp: str_in_position intro: less_imp_le)
  qed
  then have "occurrences (lit ''Disclaimer'') (t @ disclaimer) = occurrences (lit ''Disclaimer'') disclaimer"
    by (rule occurrences_tail)
  also have "\<dots> = 1"
    by (simp add: occurrences_def disclaimer_def lit_def warning_sign_def)
  finally show ?thesis .
qed


lemma prefix_inner:
  assumes "prefix (a @ v @ b) u"
  shows "prefix v (drop (length a) u)"
proof -
  from assms obtain r where "u = a @ v @ b @ r" by (auto simp: prefix_def)
  then show ?thesis by simp
qed

lemma disclaimer_parts:
  "disclaimer = (lit ''\<newline>\<newline>'' @ warning_sign @ lit '' '') @ lit ''Disclaimer'' @
     lit '': This information is for educational purposes only and is NOT a medical diagnosis. Please consult a pediatrician for proper medical advice.''"
  by (simp add: disclaimer_def lit_def)

lemma disclaimer_head:
  "j < 5 \<Longrightarrow> \<not> prefix (lit ''Disclaimer'') (drop j disclaimer)"
proof -
  assume "j < 5"
  then consider "j = 0" | "j = 1" | "j = 2" | "j = 3" | "j = 4" by linarith
  then show ?thesis
    by cases (simp_all add: disclaimer_def lit_def warning_sign_def)
qed

lemma filter_zero: "filter (\<lambda>i. i = 0) [0..<Suc n] = [0]"
proof -
  have "[0..<Suc n] = 0 # [Suc 0..<Suc n]"
    by (rule upt_conv_Cons) simp
  moreover have "filter (\<lambda>i. i = 0) [Suc 0..<Suc n] = []"
    by (simp add: filter_empty_conv del: upt_Suc)
  ultimately show ?thesis by simp
qed

lemma occurrences_self:
  assumes w: "w \<noteq> []"
  shows "occurrences w w = 1"
proof -
  have "prefix w (drop i w) \<longleftrightarrow> i = 0" for i
  proof
    assume "prefix w (drop i w)"
    then have "length w \<le> length (drop i w)" by (rule prefix_length_le)
    then have "length w \<le> length w - i" by simp
    moreover from w have "0 < length w" by simp
    ultimately show "i = 0" by arith
  qed simp
  then have "filter (\<lambda>i. prefix w (drop i w)) [0..<Suc (length w)]
      = filter (\<lambda>i. i = 0) [0..<Suc (length w)]"
    by simp
  then show ?thesis by (simp add: occurrences_def filter_zero del: upt_Suc)
qed

lemma occurrences_fixed:
  assumes "\<not> str_in (lit ''Disclaimer'') t"
  shows "occurrences disclaimer (t @ disclaimer) = 1"
proof -
  let ?v = "lit ''Disclaimer''"
  have d: "disclaimer = 10 # tl disclaimer" by (simp add: disclaimer_def lit_def)
  have notin: "10 \<notin> set ?v" by (simp add: lit_def)
  have len: "length (lit ''\<newline>\<newline>'' @ warning_sign @ lit '' '') = 5"
    by (simp add: lit_def warning_sign_def)
  have "\<not> prefix disclaimer (drop i (t @ disclaimer))" if i: "i < length t" for i
  proof
    assume "prefix disclaimer (drop i (t @ disclaimer))"
    then have "prefix ?v (drop 5 (drop i (t @ disclaimer)))"
      using prefix_inner [of "lit ''\<newline>\<newline>'' @ warning_sign @ lit '' ''" ?v]
      unfolding len by (subst (asm) disclaimer_parts) blast
    then have p: "prefix ?v (drop (i + 5) (t @ disclaimer))"
      by (simp only: drop_drop add.commute [of 5 i])
    show False
    proof (cases "i + 5 < length t")
      case True
      then have "prefix ?v (drop (i + 5) t)"
        using no_straddle [OF notin _ True, of "tl disclaimer"] d p by simp
      with True assms show False by (auto simp: str_in_position intro: less_imp_le)
    next
      case False
      then have "drop (i + 5) (t @ disclaimer) = drop (i + 5 - length t) disclaimer"
        by simp
      moreover have "i + 5 - length t < 5" using i by simp
      ultimately show False using p disclaimer_head by simp
    qed
  qed
  then have "occurrences disclaimer (t @ disclaimer) = occurrences disclaimer disclaimer"
    by (rule occurrences_tail)
  also have "\<dots> = 1"
    by (rule occurrences_self) (simp add: disclaimer_def lit_def)
  finally show ?thesis .
qed

section \<open>The branches of the handler\<close>

lemma ascii_lower_idem: "idempotent ascii_lower"
  by (simp add: idempotent_def ascii_lower_def)

lemma ascii_lower_agrees: "ascii_agrees ascii_lower"
  by (simp add: ascii_agrees_def)

lemma child_query_lower:
  "idempotent lower \<Longrightarrow>
   is_child_health_query lower (lower t) = mentions ALLOWED_KEYWORDS (lower t)"
  by (simp add: is_child_health_query_def mentions_def idempotent_def)

lemma emergency_lower:
  "idempotent lower \<Longrightarrow> is_emergency lower (lower t) = mentions EMERGENCY_KEYWORDS (lower t)"
  by (simp add: is_emergency_def mentions_def idempotent_def)

lemma ask_invalid_name:
  "symptom_name request = [] \<or> length (strip (symptom_name request)) < 2 \<Longrightarrow>
   ask_symptom lower model request = Inl (HTTPException 400 (lit ''Please provide a symptom name''))"
  by (simp add: ask_symptom_def)

lemma ask_invalid_description:
  "\<not> (symptom_name request = [] \<or> length (strip (symptom_name request)) < 2) \<Longrightarrow>
   description request = [] \<or> length (strip (description request)) < 5 \<Longrightarrow>
   ask_symptom lower model request =
     Inl (HTTPException 400 (lit ''Please provide a detailed description''))"
  by (simp add: ask_symptom_def)

lemma ask_refusal:
  assumes "idempotent lower" "passes_validation request"
    "\<not> mentions ALLOWED_KEYWORDS (lower (combined_text request))"
  shows "ask_symptom lower model request =
     Inr [(''response'', JStr refusal_text), (''emergency'', JBool False),
          (''symptom'', JStr (symptom_name request))]"
  using assms by (simp add: ask_symptom_def passes_validation_def child_query_lower)

lemma ask_emergency:
  assumes "idempotent lower" "passes_validation request"
    "mentions ALLOWED_KEYWORDS (lower (combined_text request))"
    "mentions EMERGENCY_KEYWORDS (lower (combined_text request))"
  shows "ask_symptom lower model request =
     Inr [(''response'', JStr emergency_text), (''emergency'', JBool True),
          (''symptom'', JStr (symptom_name request))]"
  using assms
  by (simp add: ask_symptom_def passes_validation_def child_query_lower emergency_lower)

lemma ask_model:
  assumes "idempotent lower" "passes_validation request"
    "mentions ALLOWED_KEYWORDS (lower (combined_text request))"
    "\<not> mentions EMERGENCY_KEYWORDS (lower (combined_text request))"
  shows "ask_symptom lower model request =
     (case model (model_input request) of
        Inl e \<Rightarrow> Inl (HTTPException 500 (lit ''An error occurred: '' @ e))
      | Inr text \<Rightarrow>
          if text = [] then
            Inl (HTTPException 500 (lit ''An error occurred: Empty response from API''))
          else
            Inr [(''response'', JStr (sanitize_response text)),
                 (''emergency'', JBool False),
                 (''symptom'', JStr (symptom_name request)),
                 (''severity'', JStr (severity request)),
                 (''duration'', JStr (duration request))])"
proof -
  have "lit ''An error occurred: '' @ lit ''Empty response from API''
      = lit ''An error occurred: Empty response from API''"
    by (simp add: lit_def)
  with assms show ?thesis
    by (simp add: ask_symptom_def passes_validation_def child_query_lower emergency_lower
        model_input_def Let_def split: sum.splits)
qed

lemma mild_fever_valid: "passes_validation mild_fever"
  by (simp add: fixture_defs eval_defs)

lemma mild_fever_allowed: "mentions ALLOWED_KEYWORDS (ascii_lower (combined_text mild_fever))"
  by (simp add: fixture_defs eval_defs)

lemma mild_fever_calm: "\<not> mentions EMERGENCY_KEYWORDS (ascii_lower (combined_text mild_fever))"
  by (simp add: fixture_defs eval_defs)

lemma ask_valid_not_400:
  assumes "passes_validation request"
  shows "\<not> rejected_400 (ask_symptom lower model request)"
  using assms
  by (simp add: ask_symptom_def passes_validation_def rejected_400_def Let_def
      split: sum.splits)

lemma strip_whitespace: "list_all isspace t \<Longrightarrow> strip t = []"
proof -
  assume "list_all isspace t"
  then have d: "dropWhile isspace t = []"
    by (induction t) simp_all
  show ?thesis unfolding strip_def d by simp
qed

lemma passes_validation_lengths:
  "passes_validation request \<longleftrightarrow>
     2 \<le> length (strip (symptom_name request)) \<and> 5 \<le> length (strip (description request))"
  by (auto simp: passes_validation_def strip_def)

lemma rejected_iff: "rejected_400 (ask_symptom lower model request) \<longleftrightarrow> \<not> passes_validation request"
proof (cases "passes_validation request")
  case True
  then show ?thesis by (simp add: ask_valid_not_400)
next
  case False
  then show ?thesis
    by (auto simp: ask_symptom_def passes_validation_def rejected_400_def)
qed

section \<open>The properties\<close>

subsection \<open>Claim C1: the emergency alert\<close>

text \<open>
  Claim C1, as amended. For every request that passes input validation and whose
  lowercased concatenation of the four fields contains an allow-listed keyword and an
  emergency keyword, the endpoint returns the fixed emergency-alert text with
  emergency=true. (Without an allow-listed keyword the refusal comes first: the request
  \<open>seizure_only\<close> below passes validation and mentions ``seizure'' and
  ``unresponsive'', and is answered with the refusal and emergency=false.)
\<close>

theorem emergency_alert:
  assumes "idempotent lower" and "passes_validation request"
    and "mentions ALLOWED_KEYWORDS (lower (combined_text request))"
    and "mentions EMERGENCY_KEYWORDS (lower (combined_text request))"
  shows "ask_symptom lower model request =
     Inr [(''response'', JStr emergency_text), (''emergency'', JBool True),
          (''symptom'', JStr (symptom_name request))]"
  using assms by (rule ask_emergency)

theorem emergency_alert_witness:
  "passes_validation fever_seizure \<and>
   mentions ALLOWED_KEYWORDS (ascii_lower (combined_text fever_seizure)) \<and>
   mentions EMERGENCY_KEYWORDS (ascii_lower (combined_text fever_seizure)) \<and>
   ask_symptom ascii_lower (reply_with (lit ''ok'')) fever_seizure =
     Inr [(''response'', JStr emergency_text), (''emergency'', JBool True),
          (''symptom'', JStr (lit ''Fever''))]"
proof -
  have v: "passes_validation fever_seizure"
    by (simp add: fixture_defs eval_defs)
  have a: "mentions ALLOWED_KEYWORDS (ascii_lower (combined_text fever_seizure))"
    by (simp add: fixture_defs eval_defs)
  have e: "mentions EMERGENCY_KEYWORDS (ascii_lower (combined_text fever_seizure))"
    by (simp add: fixture_defs eval_defs)
  have n: "symptom_name fever_seizure = lit ''Fever''"
    by (simp add: fixture_defs request_of_def)
  show ?thesis
    using emergency_alert [OF ascii_lower_idem v a e, of "reply_with (lit ''ok'')"] v a e n
    by simp
qed

theorem emergency_alert_counterexample:
  "passes_validation seizure_only \<and>
   mentions EMERGENCY_KEYWORDS (ascii_lower (combined_text seizure_only)) \<and>
   ask_symptom ascii_lower (reply_with (lit ''ok'')) seizure_only =
     Inr [(''response'', JStr refusal_text), (''emergency'', JBool False),
          (''symptom'', JStr (lit ''Seizure''))]"
proof -
  have "passes_validation seizure_only"
    by (simp add: fixture_defs eval_defs)
  moreover have "mentions EMERGENCY_KEYWORDS (ascii_lower (combined_text seizure_only))"
    by (simp add: fixture_defs eval_defs)
  moreover have "ask_symptom ascii_lower (reply_with (lit ''ok'')) seizure_only =
     Inr [(''response'', JStr refusal_text), (''emergency'', JBool False),
          (''symptom'', JStr (lit ''Seizure''))]"
    by (simp add: fixture_defs eval_defs)
  ultimately show ?thesis by simp
qed

subsection \<open>Claim C2: the allow-list check comes first\<close>

text \<open>
  Claim C2. The handler applies the allow-list check before the emergency check: for
  every request that passes input validation but whose lowercased concatenation of the
  four fields contains no allow-listed keyword, the result is the fixed refusal message
  with emergency=false and not the emergency alert, whether or not that text contains an
  emergency keyword (the request of the instance below does).
\<close>

theorem allow_list_before_emergency:
  assumes "idempotent lower" and "passes_validation request"
    and "\<not> mentions ALLOWED_KEYWORDS (lower (combined_text request))"
  shows "ask_symptom lower model request =
     Inr [(''response'', JStr refusal_text), (''emergency'', JBool False),
          (''symptom'', JStr (symptom_name request))] \<and>
   ask_symptom lower model request \<noteq>
     Inr [(''response'', JStr emergency_text), (''emergency'', JBool True),
          (''symptom'', JStr (symptom_name request))]"
  using ask_refusal [OF assms, of model] by simp

theorem allow_list_before_emergency_witness:
  "passes_validation choking_only \<and>
   \<not> mentions ALLOWED_KEYWORDS (ascii_lower (combined_text choking_only)) \<and>
   mentions EMERGENCY_KEYWORDS (ascii_lower (combined_text choking_only)) \<and>
   ask_symptom ascii_lower (reply_with (lit ''ok'')) choking_only =
     Inr [(''response'', JStr refusal_text), (''emergency'', JBool False),
          (''symptom'', JStr (lit ''Choking''))]"
proof -
  have v: "passes_validation choking_only"
    by (simp add: fixture_defs eval_defs)
  have a: "\<not> mentions ALLOWED_KEYWORDS (ascii_lower (combined_text choking_only))"
    by (simp add: fixture_defs eval_defs)
  have e: "mentions EMERGENCY_KEYWORDS (ascii_lower (combined_text choking_only))"
    by (simp add: fixture_defs eval_defs)
  have n: "symptom_name choking_only = lit ''Choking''"
    by (simp add: fixture_defs request_of_def)
  show ?thesis
    using allow_list_before_emergency [OF ascii_lower_idem v a, of "reply_with (lit ''ok'')"]
      v a e n
    by simp
qed

subsection \<open>Claim C3: the refusal\<close>

text \<open>
  Claim C3. For every request that passes input validation and whose lowercased
  concatenation of the four fields contains no allow-listed keyword, the endpoint returns
  the fixed refusal message, spelled out below, with emergency=false; the result is the
  same for every behaviour of the external model, which is not consulted.
\<close>

theorem refusal_without_model:
  assumes "idempotent lower" and "passes_validation request"
    and "\<not> mentions ALLOWED_KEYWORDS (lower (combined_text request))"
  shows "ask_symptom lower model request =
     Inr [(''response'',
           JStr (lit ''I'' @ squote @
                 lit ''m specifically designed to help with child health questions. This question appears unrelated to child health.'')),
          (''emergency'', JBool False),
          (''symptom'', JStr (symptom_name request))] \<and>
   ask_symptom lower model' request = ask_symptom lower model request"
  using ask_refusal [OF assms, of model] ask_refusal [OF assms, of model']
  by (simp add: refusal_text_def)

theorem refusal_without_model_witness:
  "passes_validation car_engine \<and>
   \<not> mentions ALLOWED_KEYWORDS (ascii_lower (combined_text car_engine)) \<and>
   ask_symptom ascii_lower (raise_with (lit ''offline'')) car_engine =
     ask_symptom ascii_lower (reply_with (lit ''ok'')) car_engine \<and>
   ask_symptom ascii_lower (reply_with (lit ''ok'')) car_engine =
     Inr [(''response'', JStr refusal_text), (''emergency'', JBool False),
          (''symptom'', JStr (lit ''Car engine''))]"
proof -
  have v: "passes_validation car_engine"
    by (simp add: fixture_defs eval_defs)
  have a: "\<not> mentions ALLOWED_KEYWORDS (ascii_lower (combined_text car_engine))"
    by (simp add: fixture_defs eval_defs)
  have n: "symptom_name car_engine = lit ''Car engine''"
    by (simp add: fixture_defs request_of_def)
  show ?thesis
    using refusal_without_model [OF ascii_lower_idem v a,
        of "reply_with (lit ''ok'')" "raise_with (lit ''offline'')"] v a n
    by (simp add: refusal_text_def)
qed

subsection \<open>Claim C4: the disclaimer\<close>

text \<open>
  Claim C4, as amended. For every valid child-health query (passes validation, contains
  an allow-listed keyword, contains no emergency keyword) for which the external model
  returns a non-empty reply, the response text is \<open>sanitize_response\<close> of the reply:
  if the reply does not contain the word ``Disclaimer'', it is the reply followed by the
  fixed disclaimer, and both the fixed disclaimer and the word ``Disclaimer'' occur in it
  exactly once; if the reply contains the word ``Disclaimer'', it is the reply unchanged.
  (A reply that says ``Disclaimer'' twice is returned as it is, with two such words and
  without the fixed disclaimer: see the instance after the theorem.)
\<close>

theorem disclaimer_appended:
  assumes "idempotent lower" and "passes_validation request"
    and "mentions ALLOWED_KEYWORDS (lower (combined_text request))"
    and "\<not> mentions EMERGENCY_KEYWORDS (lower (combined_text request))"
    and "model (model_input request) = Inr reply" and "reply \<noteq> []"
  shows "ask_symptom lower model request =
      Inr [(''response'', JStr (sanitize_response reply)), (''emergency'', JBool False),
           (''symptom'', JStr (symptom_name request)),
           (''severity'', JStr (severity request)),
           (''duration'', JStr (duration request))] \<and>
    (\<not> str_in (lit ''Disclaimer'') reply \<longrightarrow>
       sanitize_response reply = reply @ disclaimer \<and>
       occurrences disclaimer (sanitize_response reply) = 1 \<and>
       occurrences (lit ''Disclaimer'') (sanitize_response reply) = 1) \<and>
    (str_in (lit ''Disclaimer'') reply \<longrightarrow> sanitize_response reply = reply)"
proof -
  have "ask_symptom lower model request =
     Inr [(''response'', JStr (sanitize_response reply)), (''emergency'', JBool False),
          (''symptom'', JStr (symptom_name request)),
          (''severity'', JStr (severity request)),
          (''duration'', JStr (duration request))]"
    using ask_model [OF assms(1-4), of model] assms(5,6) by simp
  moreover have "sanitize_response reply = reply @ disclaimer"
    if "\<not> str_in (lit ''Disclaimer'') reply"
    using that by (simp add: sanitize_response_def)
  moreover have "sanitize_response reply = reply" if "str_in (lit ''Disclaimer'') reply"
    using that by (simp add: sanitize_response_def)
  ultimately show ?thesis
    by (simp add: occurrences_fixed occurrences_word)
qed

theorem disclaimer_appended_witness:
  "passes_validation mild_fever \<and>
   mentions ALLOWED_KEYWORDS (ascii_lower (combined_text mild_fever)) \<and>
   \<not> mentions EMERGENCY_KEYWORDS (ascii_lower (combined_text mild_fever)) \<and>
   \<not> str_in (lit ''Disclaimer'') (lit ''Keep the child hydrated.'') \<and>
   ask_symptom ascii_lower (reply_with (lit ''Keep the child hydrated.'')) mild_fever =
     Inr [(''response'', JStr (lit ''Keep the child hydrated.'' @ disclaimer)),
          (''emergency'', JBool False), (''symptom'', JStr (lit ''Fever'')),
          (''severity'', JStr (lit ''mild'')), (''duration'', JStr (lit ''1 day''))] \<and>
   occurrences disclaimer (lit ''Keep the child hydrated.'' @ disclaimer) = 1 \<and>
   occurrences (lit ''Disclaimer'') (lit ''Keep the child hydrated.'' @ disclaimer) = 1"
proof -
  let ?reply = "lit ''Keep the child hydrated.''"
  have m: "reply_with ?reply (model_input mild_fever) = Inr ?reply"
    by (simp add: reply_with_def)
  have ne: "?reply \<noteq> []" by (simp add: lit_def)
  have d: "\<not> str_in (lit ''Disclaimer'') ?reply" by (simp add: lit_def)
  have f: "symptom_name mild_fever = lit ''Fever''" "severity mild_fever = lit ''mild''"
    "duration mild_fever = lit ''1 day''"
    by (simp_all add: fixture_defs request_of_def)
  show ?thesis
    using disclaimer_appended [where model = "reply_with ?reply" and reply = "?reply",
        OF ascii_lower_idem mild_fever_valid mild_fever_allowed mild_fever_calm m ne]
      mild_fever_valid mild_fever_allowed mild_fever_calm d f
    by auto
qed

theorem disclaimer_appended_counterexample:
  "passes_validation mild_fever \<and>
   mentions ALLOWED_KEYWORDS (ascii_lower (combined_text mild_fever)) \<and>
   \<not> mentions EMERGENCY_KEYWORDS (ascii_lower (combined_text mild_fever)) \<and>
   ask_symptom ascii_lower (reply_with (lit ''Disclaimer: rest. Disclaimer: see a doctor.''))
       mild_fever =
     Inr [(''response'', JStr (lit ''Disclaimer: rest. Disclaimer: see a doctor.'')),
          (''emergency'', JBool False), (''symptom'', JStr (lit ''Fever'')),
          (''severity'', JStr (lit ''mild'')), (''duration'', JStr (lit ''1 day''))] \<and>
   occurrences (lit ''Disclaimer'') (lit ''Disclaimer: rest. Disclaimer: see a doctor.'') = 2 \<and>
   occurrences disclaimer (lit ''Disclaimer: rest. Disclaimer: see a doctor.'') = 0"
proof -
  have "ask_symptom ascii_lower (reply_with (lit ''Disclaimer: rest. Disclaimer: see a doctor.''))
       mild_fever =
     Inr [(''response'', JStr (lit ''Disclaimer: rest. Disclaimer: see a doctor.'')),
          (''emergency'', JBool False), (''symptom'', JStr (lit ''Fever'')),
          (''severity'', JStr (lit ''mild'')), (''duration'', JStr (lit ''1 day''))]"
    by (simp add: fixture_defs eval_defs)
  moreover have
    "occurrences (lit ''Disclaimer'') (lit ''Disclaimer: rest. Disclaimer: see a doctor.'') = 2"
    by (simp add: occurrences_def lit_def)
  moreover have
    "occurrences disclaimer (lit ''Disclaimer: rest. Disclaimer: see a doctor.'') = 0"
    by (simp add: occurrences_def lit_def disclaimer_def warning_sign_def)
  ultimately show ?thesis
    using mild_fever_valid mild_fever_allowed mild_fever_calm by simp
qed


subsection \<open>Claim C5: input validation\<close>

text \<open>
  Claim C5. For every request in which the symptom name or the description is empty or,
  once stripped, shorter than its minimum (2 and 5), the endpoint fails with a 400 client
  error carrying one of the two descriptive messages, and the result is the same for
  every \<open>lower\<close> and every model: no keyword check or model call takes part. Every
  request meeting both minimum lengths is not answered with a 400.
\<close>

theorem validation_400:
  "(symptom_name request = [] \<or> length (strip (symptom_name request)) < 2 \<or>
    description request = [] \<or> length (strip (description request)) < 5 \<longrightarrow>
      (ask_symptom lower model request =
         Inl (HTTPException 400 (lit ''Please provide a symptom name'')) \<or>
       ask_symptom lower model request =
         Inl (HTTPException 400 (lit ''Please provide a detailed description''))) \<and>
      ask_symptom lower' model' request = ask_symptom lower model request) \<and>
   (2 \<le> length (strip (symptom_name request)) \<and> 5 \<le> length (strip (description request)) \<longrightarrow>
      \<not> rejected_400 (ask_symptom lower model request))"
proof (intro conjI impI)
  assume bad: "symptom_name request = [] \<or> length (strip (symptom_name request)) < 2 \<or>
    description request = [] \<or> length (strip (description request)) < 5"
  show "ask_symptom lower model request =
         Inl (HTTPException 400 (lit ''Please provide a symptom name'')) \<or>
       ask_symptom lower model request =
         Inl (HTTPException 400 (lit ''Please provide a detailed description''))"
    using bad ask_invalid_name [of request lower model]
      ask_invalid_description [of request lower model] by blast
  show "ask_symptom lower' model' request = ask_symptom lower model request"
  proof (cases "symptom_name request = [] \<or> length (strip (symptom_name request)) < 2")
    case True
    show ?thesis
      using ask_invalid_name [OF True, of lower model]
        ask_invalid_name [OF True, of lower' model'] by simp
  next
    case False
    with bad have d: "description request = [] \<or> length (strip (description request)) < 5"
      by blast
    show ?thesis
      using ask_invalid_description [OF False d, of lower model]
        ask_invalid_description [OF False d, of lower' model'] by simp
  qed
next
  assume "2 \<le> length (strip (symptom_name request)) \<and>
    5 \<le> length (strip (description request))"
  then have "passes_validation request"
    by (auto simp: passes_validation_def strip_def)
  then show "\<not> rejected_400 (ask_symptom lower model request)"
    by (rule ask_valid_not_400)
qed

theorem validation_400_witness:
  "length (strip (symptom_name short_name)) < 2 \<and>
   ask_symptom ascii_lower (raise_with (lit ''offline'')) short_name =
     Inl (HTTPException 400 (lit ''Please provide a symptom name'')) \<and>
   ask_symptom ascii_lower (raise_with (lit ''offline'')) short_name =
     ask_symptom id (reply_with (lit ''ok'')) short_name \<and>
   2 \<le> length (strip (symptom_name mild_fever)) \<and>
   5 \<le> length (strip (description mild_fever)) \<and>
   \<not> rejected_400 (ask_symptom ascii_lower (reply_with (lit ''ok'')) mild_fever)"
proof -
  have s: "length (strip (symptom_name short_name)) < 2"
    by (simp add: fixture_defs eval_defs)
  have l: "2 \<le> length (strip (symptom_name mild_fever))"
    "5 \<le> length (strip (description mild_fever))"
    by (simp_all add: fixture_defs eval_defs)
  have e: "ask_symptom ascii_lower (raise_with (lit ''offline'')) short_name \<noteq>
     Inl (HTTPException 400 (lit ''Please provide a detailed description''))"
    by (simp add: ask_symptom_def s lit_def)
  show ?thesis
    using validation_400 [of short_name ascii_lower "raise_with (lit ''offline'')" id
        "reply_with (lit ''ok'')"]
      validation_400 [of mild_fever ascii_lower "reply_with (lit ''ok'')"] s l e
    by auto
qed

subsection \<open>Claim C6: failures of the model call\<close>

text \<open>
  Claim C6. For every request that reaches the model-call branch (valid, an allow-listed
  keyword, no emergency keyword): if the external call raises, the endpoint fails with a
  500 server error whose detail is ``An error occurred: '' followed by the error message;
  if the model returns an empty reply, it fails with a 500 whose detail is
  ``An error occurred: Empty response from API''. In both cases the result is an
  \<open>HTTPException\<close>, not a 200 response.
\<close>

theorem model_failure_500:
  assumes "idempotent lower" and "passes_validation request"
    and "mentions ALLOWED_KEYWORDS (lower (combined_text request))"
    and "\<not> mentions EMERGENCY_KEYWORDS (lower (combined_text request))"
  shows "(model (model_input request) = Inl e \<longrightarrow>
      ask_symptom lower model request =
        Inl (HTTPException 500 (lit ''An error occurred: '' @ e))) \<and>
    (model (model_input request) = Inr [] \<longrightarrow>
      ask_symptom lower model request =
        Inl (HTTPException 500 (lit ''An error occurred: Empty response from API'')))"
  using ask_model [OF assms, of model] by simp

theorem model_failure_500_witness:
  "passes_validation mild_fever \<and>
   mentions ALLOWED_KEYWORDS (ascii_lower (combined_text mild_fever)) \<and>
   \<not> mentions EMERGENCY_KEYWORDS (ascii_lower (combined_text mild_fever)) \<and>
   ask_symptom ascii_lower (raise_with (lit ''quota exceeded'')) mild_fever =
     Inl (HTTPException 500 (lit ''An error occurred: quota exceeded'')) \<and>
   ask_symptom ascii_lower (reply_with []) mild_fever =
     Inl (HTTPException 500 (lit ''An error occurred: Empty response from API''))"
proof -
  have j: "lit ''An error occurred: '' @ lit ''quota exceeded''
      = lit ''An error occurred: quota exceeded''"
    by (simp add: lit_def)
  show ?thesis
    using model_failure_500 [OF ascii_lower_idem mild_fever_valid mild_fever_allowed
        mild_fever_calm, of "raise_with (lit ''quota exceeded'')" "lit ''quota exceeded''"]
      model_failure_500 [OF ascii_lower_idem mild_fever_valid mild_fever_allowed
        mild_fever_calm, of "reply_with []"]
      mild_fever_valid mild_fever_allowed mild_fever_calm j
    by (simp add: raise_with_def reply_with_def)
qed

subsection \<open>Claim C7: the emergency short-circuit bypasses the model\<close>

text \<open>
  Claim C7, as amended. For every request whose lowercased combined text contains both an
  allow-listed and an emergency keyword, and for any two behaviours of the external
  model, the endpoint's response is identical; when the request passes input validation,
  that response is the fixed emergency alert. (A request that fails validation is
  answered with the 400 error instead of the alert: \<open>short_name\<close> below.)
\<close>

theorem emergency_ignores_model:
  assumes "idempotent lower"
    and "mentions ALLOWED_KEYWORDS (lower (combined_text request))"
    and "mentions EMERGENCY_KEYWORDS (lower (combined_text request))"
  shows "ask_symptom lower model request = ask_symptom lower model' request \<and>
    (passes_validation request \<longrightarrow>
       ask_symptom lower model request =
         Inr [(''response'', JStr emergency_text), (''emergency'', JBool True),
              (''symptom'', JStr (symptom_name request))])"
proof (cases "passes_validation request")
  case True
  then show ?thesis
    using ask_emergency [OF assms(1) True assms(2,3)] by simp
next
  case False
  then show ?thesis by (auto simp: ask_symptom_def passes_validation_def)
qed

theorem emergency_ignores_model_witness:
  "mentions ALLOWED_KEYWORDS (ascii_lower (combined_text fever_seizure)) \<and>
   mentions EMERGENCY_KEYWORDS (ascii_lower (combined_text fever_seizure)) \<and>
   passes_validation fever_seizure \<and>
   ask_symptom ascii_lower (raise_with (lit ''offline'')) fever_seizure =
     ask_symptom ascii_lower (reply_with (lit ''Give paracetamol.'')) fever_seizure \<and>
   ask_symptom ascii_lower (raise_with (lit ''offline'')) fever_seizure =
     Inr [(''response'', JStr emergency_text), (''emergency'', JBool True),
          (''symptom'', JStr (lit ''Fever''))]"
proof -
  have v: "passes_validation fever_seizure"
    by (simp add: fixture_defs eval_defs)
  have a: "mentions ALLOWED_KEYWORDS (ascii_lower (combined_text fever_seizure))"
    by (simp add: fixture_defs eval_defs)
  have e: "mentions EMERGENCY_KEYWORDS (ascii_lower (combined_text fever_seizure))"
    by (simp add: fixture_defs eval_defs)
  have n: "symptom_name fever_seizure = lit ''Fever''"
    by (simp add: fixture_defs request_of_def)
  show ?thesis
    using emergency_ignores_model [OF ascii_lower_idem a e,
        of "raise_with (lit ''offline'')" "reply_with (lit ''Give paracetamol.'')"] v a e n
    by auto
qed

theorem emergency_ignores_model_counterexample:
  "mentions ALLOWED_KEYWORDS (ascii_lower (combined_text short_name)) \<and>
   mentions EMERGENCY_KEYWORDS (ascii_lower (combined_text short_name)) \<and>
   ask_symptom ascii_lower (reply_with (lit ''ok'')) short_name =
     Inl (HTTPException 400 (lit ''Please provide a symptom name'')) \<and>
   ask_symptom ascii_lower (reply_with (lit ''ok'')) short_name \<noteq>
     Inr [(''response'', JStr emergency_text), (''emergency'', JBool True),
          (''symptom'', JStr (symptom_name short_name))]"
  by (simp add: fixture_defs eval_defs)

subsection \<open>Claim C8: the fields of a 200 response\<close>

text \<open>
  Claim C8, as amended. Every successful (200) response of the POST endpoint comes from a
  request that passes input validation; it contains the response text, the emergency
  boolean and, under the key ``symptom'', the submitted symptom name, and it never
  contains the description. Which items it has is fixed by the branch that built it.
  When the combined query fails the allow-list check, it is the refusal: exactly the
  three items response, emergency=false, symptom. When the query passes the allow-list
  check and the emergency check fires, it is the emergency alert: exactly the three
  items response, emergency=true, symptom. When the query passes the allow-list check
  and the emergency check does not fire, the model returned a non-empty reply and the
  response is exactly the five items response (the sanitized reply), emergency=false,
  symptom, severity and duration, the last two echoing the submitted severity and
  duration.
\<close>

theorem response_fields:
  assumes "ask_symptom lower model request = Inr r"
  shows "passes_validation request \<and>
    (\<exists>t. map_of r ''response'' = Some (JStr t)) \<and>
    (\<exists>b. map_of r ''emergency'' = Some (JBool b)) \<and>
    map_of r ''symptom'' = Some (JStr (symptom_name request)) \<and>
    map_of r ''description'' = None \<and>
    (\<not> is_child_health_query lower (lower (combined_text request)) \<longrightarrow>
       r = [(''response'', JStr refusal_text), (''emergency'', JBool False),
            (''symptom'', JStr (symptom_name request))]) \<and>
    (is_child_health_query lower (lower (combined_text request)) \<and>
     is_emergency lower (lower (combined_text request)) \<longrightarrow>
       r = [(''response'', JStr emergency_text), (''emergency'', JBool True),
            (''symptom'', JStr (symptom_name request))]) \<and>
    (is_child_health_query lower (lower (combined_text request)) \<and>
     \<not> is_emergency lower (lower (combined_text request)) \<longrightarrow>
       (\<exists>reply. model (model_input request) = Inr reply \<and> reply \<noteq> [] \<and>
          r = [(''response'', JStr (sanitize_response reply)), (''emergency'', JBool False),
               (''symptom'', JStr (symptom_name request)),
               (''severity'', JStr (severity request)),
               (''duration'', JStr (duration request))]))"
proof -
  have valid: "passes_validation request"
    using assms by (auto simp: ask_symptom_def passes_validation_def split: if_splits)
  then have guards:
    "\<not> (symptom_name request = [] \<or> length (strip (symptom_name request)) < 2)"
    "\<not> (description request = [] \<or> length (strip (description request)) < 5)"
    by (simp_all add: passes_validation_def)
  let ?q = "lower (combined_text request)"
  consider (refusal) "\<not> is_child_health_query lower ?q"
    | (alert) "is_child_health_query lower ?q" "is_emergency lower ?q"
    | (reply) "is_child_health_query lower ?q" "\<not> is_emergency lower ?q"
    by blast
  then show ?thesis
  proof cases
    case refusal
    then have "r = [(''response'', JStr refusal_text), (''emergency'', JBool False),
            (''symptom'', JStr (symptom_name request))]"
      using assms guards by (simp add: ask_symptom_def)
    with refusal valid show ?thesis by auto
  next
    case alert
    then have "r = [(''response'', JStr emergency_text), (''emergency'', JBool True),
            (''symptom'', JStr (symptom_name request))]"
      using assms guards by (simp add: ask_symptom_def)
    with alert valid show ?thesis by auto
  next
    case reply
    then have "\<exists>t. model (model_input request) = Inr t \<and> t \<noteq> [] \<and>
          r = [(''response'', JStr (sanitize_response t)), (''emergency'', JBool False),
               (''symptom'', JStr (symptom_name request)),
               (''severity'', JStr (severity request)),
               (''duration'', JStr (duration request))]"
      using assms guards
      by (auto simp: ask_symptom_def model_input_def Let_def split: sum.splits if_splits)
    with reply valid show ?thesis by auto
  qed
qed

theorem response_fields_witness:
  "is_child_health_query ascii_lower (ascii_lower (combined_text mild_fever)) \<and>
   \<not> is_emergency ascii_lower (ascii_lower (combined_text mild_fever)) \<and>
   ask_symptom ascii_lower (reply_with (lit ''Disclaimer: rest.'')) mild_fever =
     Inr [(''response'', JStr (lit ''Disclaimer: rest.'')), (''emergency'', JBool False),
          (''symptom'', JStr (lit ''Fever'')), (''severity'', JStr (lit ''mild'')),
          (''duration'', JStr (lit ''1 day''))] \<and>
   lit ''Disclaimer: rest.'' = sanitize_response (lit ''Disclaimer: rest.'') \<and>
   lit ''Fever'' = symptom_name mild_fever \<and>
   lit ''mild'' = severity mild_fever \<and>
   lit ''1 day'' = duration mild_fever \<and>
   passes_validation mild_fever"
proof -
  have r: "ask_symptom ascii_lower (reply_with (lit ''Disclaimer: rest.'')) mild_fever =
     Inr [(''response'', JStr (lit ''Disclaimer: rest.'')), (''emergency'', JBool False),
          (''symptom'', JStr (lit ''Fever'')), (''severity'', JStr (lit ''mild'')),
          (''duration'', JStr (lit ''1 day''))]"
    by (simp add: fixture_defs eval_defs)
  have c: "is_child_health_query ascii_lower (ascii_lower (combined_text mild_fever))"
    by (simp add: fixture_defs eval_defs)
  have e: "\<not> is_emergency ascii_lower (ascii_lower (combined_text mild_fever))"
    by (simp add: fixture_defs eval_defs)
  show ?thesis
    using response_fields [OF r] r c e by (auto simp: reply_with_def)
qed

theorem response_fields_counterexample:
  "ask_symptom ascii_lower (reply_with (lit ''ok'')) car_engine =
     Inr [(''response'', JStr refusal_text), (''emergency'', JBool False),
          (''symptom'', JStr (lit ''Car engine''))] \<and>
   field ''description'' (ask_symptom ascii_lower (reply_with (lit ''ok'')) car_engine) = None \<and>
   field ''severity'' (ask_symptom ascii_lower (reply_with (lit ''ok'')) car_engine) = None \<and>
   field ''duration'' (ask_symptom ascii_lower (reply_with (lit ''ok'')) car_engine) = None"
proof -
  have "ask_symptom ascii_lower (reply_with (lit ''ok'')) car_engine =
     Inr [(''response'', JStr refusal_text), (''emergency'', JBool False),
          (''symptom'', JStr (lit ''Car engine''))]"
    by (simp add: fixture_defs eval_defs)
  then show ?thesis by (simp add: field_def)
qed

subsection \<open>Claim C9: the keyword checks are substring checks\<close>

text \<open>
  Claim C9. Both keyword checks test contiguous-substring containment, not whole-word
  membership: \<open>is_child_health_query text\<close> is true iff some entry of
  \<open>ALLOWED_KEYWORDS\<close> occurs as a substring of the lowered text, and likewise
  \<open>is_emergency\<close> over \<open>EMERGENCY_KEYWORDS\<close>. Consequently ``kidney'', which is no
  allow-listed term but contains ``kid'', is a child-health query, and ``falling'', which
  is no emergency term but contains ``fall'', is an emergency.
\<close>

theorem keyword_checks_are_substring_checks:
  "(is_child_health_query lower text_in \<longleftrightarrow>
      (\<exists>word \<in> set ALLOWED_KEYWORDS. \<exists>before after. lower text_in = before @ word @ after)) \<and>
   (is_emergency lower text_in \<longleftrightarrow>
      (\<exists>word \<in> set EMERGENCY_KEYWORDS. \<exists>before after. lower text_in = before @ word @ after)) \<and>
   lit ''kidney'' \<notin> set ALLOWED_KEYWORDS \<and> lit ''falling'' \<notin> set EMERGENCY_KEYWORDS \<and>
   (ascii_agrees lower \<longrightarrow>
      is_child_health_query lower (lit ''kidney'') \<and> is_emergency lower (lit ''falling''))"
proof -
  have sub: "str_in w t \<longleftrightarrow> (\<exists>before after. t = before @ w @ after)" for w t :: str
    by (simp add: str_in_sublist sublist_def)
  have "is_child_health_query lower (lit ''kidney'') \<and> is_emergency lower (lit ''falling'')"
    if agrees: "ascii_agrees lower"
  proof -
    have k: "lower (lit ''kidney'') = lit ''kidney''"
      and f: "lower (lit ''falling'') = lit ''falling''"
      using agrees by (simp_all add: ascii_agrees_def lit_def ascii_lower_def)
    have "is_child_health_query lower (lit ''kidney'')"
      unfolding is_child_health_query_def k
      by (simp add: ALLOWED_KEYWORDS_def lit_def)
    moreover have "is_emergency lower (lit ''falling'')"
      unfolding is_emergency_def f
      by (simp add: EMERGENCY_KEYWORDS_def lit_def)
    ultimately show ?thesis by simp
  qed
  moreover have "lit ''kidney'' \<notin> set ALLOWED_KEYWORDS"
    by (simp add: ALLOWED_KEYWORDS_def lit_def)
  moreover have "lit ''falling'' \<notin> set EMERGENCY_KEYWORDS"
    by (simp add: EMERGENCY_KEYWORDS_def lit_def)
  ultimately show ?thesis
    by (simp add: is_child_health_query_def is_emergency_def list_ex_iff sub)
qed

theorem keyword_checks_are_substring_checks_witness:
  "is_child_health_query ascii_lower (lit ''Kidney stones'') \<and>
   is_child_health_query ascii_lower (lit ''kidney'') \<and>
   is_emergency ascii_lower (lit ''falling'')"
proof -
  have "\<exists>word \<in> set ALLOWED_KEYWORDS. \<exists>before after.
      ascii_lower (lit ''Kidney stones'') = before @ word @ after"
  proof (intro bexI exI)
    show "ascii_lower (lit ''Kidney stones'') = [] @ lit ''kid'' @ lit ''ney stones''"
      by (simp add: ascii_lower_def lit_def)
    show "lit ''kid'' \<in> set ALLOWED_KEYWORDS"
      by (simp add: ALLOWED_KEYWORDS_def)
  qed
  then show ?thesis
    using keyword_checks_are_substring_checks [of ascii_lower "lit ''Kidney stones''"]
      ascii_lower_agrees
    by blast
qed

subsection \<open>Claim C10: the validation thresholds\<close>

text \<open>
  Claim C10. The validation thresholds apply to whitespace-stripped values: a request
  passes input validation iff its symptom name stripped of surrounding whitespace has
  length at least 2 and its description stripped of surrounding whitespace has length at
  least 5, and it is rejected with 400 exactly when it does not pass. In particular a
  symptom name or description consisting only of whitespace is rejected with 400
  whatever its raw length, and severity and duration are never length-checked: replacing
  them by any strings does not change whether the request is rejected.
\<close>

theorem validation_thresholds:
  "(passes_validation request \<longleftrightarrow>
      2 \<le> length (strip (symptom_name request)) \<and> 5 \<le> length (strip (description request))) \<and>
   (rejected_400 (ask_symptom lower model request) \<longleftrightarrow> \<not> passes_validation request) \<and>
   (list_all isspace (symptom_name request) \<or> list_all isspace (description request) \<longrightarrow>
      rejected_400 (ask_symptom lower model request)) \<and>
   (rejected_400 (ask_symptom lower model (request\<lparr>severity := s, duration := u\<rparr>)) \<longleftrightarrow>
      rejected_400 (ask_symptom lower model request))"
proof -
  have "\<not> passes_validation request"
    if "list_all isspace (symptom_name request) \<or> list_all isspace (description request)"
    using that by (auto simp: passes_validation_lengths strip_whitespace)
  moreover have "passes_validation (request\<lparr>severity := s, duration := u\<rparr>)
      = passes_validation request"
    by (simp add: passes_validation_def)
  ultimately show ?thesis
    by (auto simp: rejected_iff passes_validation_lengths)
qed

theorem validation_thresholds_witness:
  "list_all isspace (symptom_name blank_name) \<and> length (symptom_name blank_name) = 3 \<and>
   rejected_400 (ask_symptom ascii_lower (reply_with (lit ''ok'')) blank_name) \<and>
   severity no_severity = [] \<and> duration no_severity = [] \<and> passes_validation no_severity \<and>
   \<not> rejected_400 (ask_symptom ascii_lower (reply_with (lit ''ok'')) no_severity)"
proof -
  have b: "list_all isspace (symptom_name blank_name)" "length (symptom_name blank_name) = 3"
    by (simp_all add: fixture_defs eval_defs)
  have n: "severity no_severity = []" "duration no_severity = []"
    "2 \<le> length (strip (symptom_name no_severity))"
    "5 \<le> length (strip (description no_severity))"
    by (simp_all add: fixture_defs eval_defs)
  show ?thesis
    using validation_thresholds [of blank_name ascii_lower "reply_with (lit ''ok'')"]
      validation_thresholds [of no_severity ascii_lower "reply_with (lit ''ok'')"] b n
    by auto
qed

end
